theory Spec2Isabelle
  imports Main "HOL-Library.AList"
begin

section \<open>Errors\<close>

text \<open>
  The Python exceptions the modelled code can raise. \<open>Unreachable\<close> is the error kind
  the specification names for path reconstruction; no statement of the source raises it.
\<close>

datatype error = IndexError | KeyError | AttributeError | Unreachable

text \<open>
  A call either raises (the state it leaves behind is kept: Python mutates in place)
  or returns a value together with the new state.
\<close>

datatype ('r, 's) outcome = Raise error 's | Return 'r 's

section \<open>Vertex and Edge\<close>

text \<open>
  \<open>Vertex\<close> and \<open>Edge\<close> define no \<open>__eq__\<close>: two objects are equal only when they
  are the same object. The field \<open>vid\<close> (\<open>eid\<close>) is the object's identity, taken from the
  allocation counter of the graph that created it.
\<close>

datatype 'a vertex = Vertex (vid: nat) (element: 'a)

datatype ('a, 'w) edge =
  Edge (eid: nat) (start: "'a vertex") (end_v: "'a vertex") (edge_element: 'w)

definition opposite :: "('a, 'w) edge \<Rightarrow> 'a vertex \<Rightarrow> 'a vertex option" where
  "opposite e v =
     (if start e = v then Some (end_v e)
      else if end_v e = v then Some (start e)
      else None)"

section \<open>Graph\<close>

text \<open>
  \<open>_structure\<close> is a dict of dicts. Python dicts keep insertion order, and assigning to
  a key that is present keeps its place: an association list changed by \<open>AList.update\<close>.
\<close>

record ('a, 'w) graph =
  struct :: "('a vertex \<times> ('a vertex \<times> ('a, 'w) edge) list) list"
  next_id :: nat

definition Graph_init :: "('a, 'w) graph" where
  "Graph_init = \<lparr>struct = [], next_id = 0\<rparr>"

definition num_vertices :: "('a, 'w, 'z) graph_scheme \<Rightarrow> nat" where
  "num_vertices g = length (struct g)"

definition num_edges :: "('a, 'w, 'z) graph_scheme \<Rightarrow> nat" where
  "num_edges g = sum_list (map (\<lambda>va. length (snd va)) (struct g)) div 2"

definition vertices :: "('a, 'w, 'z) graph_scheme \<Rightarrow> 'a vertex list" where
  "vertices g = map fst (struct g)"

definition get_vertex_by_label :: "('a, 'w, 'z) graph_scheme \<Rightarrow> 'a \<Rightarrow> 'a vertex option" where
  "get_vertex_by_label g x = find (\<lambda>v. element v = x) (map fst (struct g))"

definition edges :: "('a, 'w, 'z) graph_scheme \<Rightarrow> ('a, 'w) edge list" where
  "edges g =
     concat (map (\<lambda>va. map snd (filter (\<lambda>we. start (snd we) = fst va) (snd va)))
       (struct g))"

text \<open>\<open>get_edges\<close> is also called with \<open>None\<close> (a label lookup that missed): \<open>None\<close> is
  not a key of the dict, so the result is \<open>None\<close>.\<close>

definition get_edges ::
  "('a, 'w, 'z) graph_scheme \<Rightarrow> 'a vertex option \<Rightarrow> ('a, 'w) edge list option" where
  "get_edges g vo =
     (case vo of
        None \<Rightarrow> None
      | Some v \<Rightarrow>
          (case map_of (struct g) v of
             None \<Rightarrow> None
           | Some adj \<Rightarrow> Some (map snd adj)))"

definition get_edge ::
  "('a, 'w, 'z) graph_scheme \<Rightarrow> 'a vertex \<Rightarrow> 'a vertex \<Rightarrow> ('a, 'w) edge option" where
  "get_edge g v w =
     (case map_of (struct g) v of
        None \<Rightarrow> None
      | Some adj \<Rightarrow> map_of adj w)"

definition degree :: "('a, 'w, 'z) graph_scheme \<Rightarrow> 'a vertex \<Rightarrow> error + nat" where
  "degree g v =
     (case map_of (struct g) v of
        None \<Rightarrow> Inl KeyError
      | Some adj \<Rightarrow> Inr (length adj))"

definition add_vertex ::
  "('a, 'w, 'z) graph_scheme \<Rightarrow> 'a \<Rightarrow> 'a vertex \<times> ('a, 'w, 'z) graph_scheme" where
  "add_vertex g x =
     (let v = Vertex (next_id g) x
      in (v, g\<lparr>struct := AList.update v [] (struct g), next_id := Suc (next_id g)\<rparr>))"

definition add_vertex_if_new ::
  "('a, 'w, 'z) graph_scheme \<Rightarrow> 'a \<Rightarrow> 'a vertex \<times> ('a, 'w, 'z) graph_scheme" where
  "add_vertex_if_new g x =
     (case find (\<lambda>v. element v = x) (map fst (struct g)) of
        Some v \<Rightarrow> (v, g)
      | None \<Rightarrow> add_vertex g x)"

text \<open>\<open>self._structure[v][w] = e\<close>, for a \<open>v\<close> that is a key of the outer dict.\<close>

definition set_edge ::
  "('a vertex \<times> ('a vertex \<times> ('a, 'w) edge) list) list \<Rightarrow> 'a vertex \<Rightarrow> 'a vertex \<Rightarrow>
   ('a, 'w) edge \<Rightarrow> ('a vertex \<times> ('a vertex \<times> ('a, 'w) edge) list) list" where
  "set_edge s v w e =
     (case map_of s v of
        None \<Rightarrow> s
      | Some adj \<Rightarrow> AList.update v (AList.update w e adj) s)"

text \<open>
  The argument \<open>oneway\<close> can be any Python object, and \<open>add_edge\<close> tests it by identity:
  \<open>oneway is True\<close>, then \<open>oneway is False\<close>. What it sees of the object is whether it is
  the object \<open>True\<close>, the object \<open>False\<close>, or any other object (\<open>1\<close>, \<open>0\<close>, \<open>None\<close>, a
  string).
\<close>

datatype pyflag = PyTrue | PyFalse | PyOther

text \<open>
  The edge object is created before the tests. With \<open>v \<noteq> w\<close> and an \<open>oneway\<close> that is
  neither \<open>True\<close> nor \<open>False\<close>, no branch is taken: the edge is returned and stored
  nowhere.
\<close>

definition add_edge ::
  "('a, 'w, 'z) graph_scheme \<Rightarrow> 'a vertex \<Rightarrow> 'a vertex \<Rightarrow> 'w \<Rightarrow> pyflag \<Rightarrow>
   ('a, 'w) edge option \<times> ('a, 'w, 'z) graph_scheme" where
  "add_edge g v w x oneway =
     (if map_of (struct g) v = None \<or> map_of (struct g) w = None then (None, g)
      else
        (let e = Edge (next_id g) v w x
         in if oneway = PyTrue \<or> v = w
            then (Some e, g\<lparr>struct := set_edge (struct g) v w e,
                             next_id := Suc (next_id g)\<rparr>)
            else if oneway = PyFalse
            then (Some e, g\<lparr>struct := set_edge (set_edge (struct g) v w e) w v e,
                             next_id := Suc (next_id g)\<rparr>)
            else (Some e, g\<lparr>next_id := Suc (next_id g)\<rparr>)))"

text \<open>A sequence of construction calls on a \<open>Graph\<close>, run from left to right.\<close>

datatype ('a, 'w) call =
  AddVertex 'a
  | AddEdge "'a vertex" "'a vertex" 'w pyflag

fun run_call :: "('a, 'w, 'z) graph_scheme \<Rightarrow> ('a, 'w) call \<Rightarrow> ('a, 'w, 'z) graph_scheme" where
  "run_call g (AddVertex x) = snd (add_vertex g x)"
| "run_call g (AddEdge v w x oneway) = snd (add_edge g v w x oneway)"

definition run_calls ::
  "('a, 'w, 'z) graph_scheme \<Rightarrow> ('a, 'w) call list \<Rightarrow> ('a, 'w, 'z) graph_scheme" where
  "run_calls g cs = foldl run_call g cs"


section \<open>Element and APQ\<close>

text \<open>
  An \<open>Element\<close> is a mutable object that the queue and the caller's handle share, so the
  elements live in a store: \<open>cells\<close> holds every element ever created, a handle is its
  position there, and \<open>queue\<close> is the Python list \<open>_queue\<close> of handles.
\<close>

record ('k, 'v) element =
  key :: 'k
  val :: 'v
  index :: int

record ('k, 'v) apq =
  queue :: "nat list"
  cells :: "('k, 'v) element list"

definition APQ_init :: "('k, 'v) apq" where
  "APQ_init = \<lparr>queue = [], cells = []\<rparr>"

definition py_pos :: "nat \<Rightarrow> int \<Rightarrow> nat option" where
  "py_pos n i =
     (if 0 \<le> i \<and> i < int n then Some (nat i)
      else if i < 0 \<and> - int n \<le> i then Some (nat (int n + i))
      else None)"

definition entry :: "('k, 'v) apq \<Rightarrow> int \<Rightarrow> nat option" where
  "entry q i = map_option (\<lambda>p. queue q ! p) (py_pos (length (queue q)) i)"

definition key_of :: "('k, 'v) apq \<Rightarrow> nat \<Rightarrow> 'k" where
  "key_of q h = key (cells q ! h)"

definition index_of :: "('k, 'v) apq \<Rightarrow> nat \<Rightarrow> int" where
  "index_of q h = index (cells q ! h)"

definition set_index :: "('k, 'v) apq \<Rightarrow> nat \<Rightarrow> int \<Rightarrow> ('k, 'v) apq" where
  "set_index q h i = q\<lparr>cells := (cells q)[h := (cells q ! h)\<lparr>index := i\<rparr>]\<rparr>"

definition set_key :: "('k, 'v) apq \<Rightarrow> nat \<Rightarrow> 'k \<Rightarrow> ('k, 'v) apq" where
  "set_key q h k = q\<lparr>cells := (cells q)[h := (cells q ! h)\<lparr>key := k\<rparr>]\<rparr>"

definition put :: "('k, 'v) apq \<Rightarrow> int \<Rightarrow> nat \<Rightarrow> ('k, 'v) apq option" where
  "put q i h =
     map_option (\<lambda>p. q\<lparr>queue := (queue q)[p := h]\<rparr>) (py_pos (length (queue q)) i)"

definition swap_entries :: "('k, 'v) apq \<Rightarrow> int \<Rightarrow> int \<Rightarrow> (unit, ('k, 'v) apq) outcome" where
  "swap_entries q i j =
     (case entry q i of
        None \<Rightarrow> Raise IndexError q
      | Some a \<Rightarrow>
          (let q1 = set_index q a j
           in case entry q1 j of
                None \<Rightarrow> Raise IndexError q1
              | Some b \<Rightarrow>
                  (let q2 = set_index q1 b i
                   in case entry q2 j of
                        None \<Rightarrow> Raise IndexError q2
                      | Some x \<Rightarrow>
                          (case entry q2 i of
                             None \<Rightarrow> Raise IndexError q2
                           | Some y \<Rightarrow>
                               (case put q2 i x of
                                  None \<Rightarrow> Raise IndexError q2
                                | Some q3 \<Rightarrow>
                                    (case put q3 j y of
                                       None \<Rightarrow> Raise IndexError q3
                                     | Some q4 \<Rightarrow> Return () q4))))))"

definition lt_entries :: "('k::ord, 'v) apq \<Rightarrow> int \<Rightarrow> int \<Rightarrow> bool option" where
  "lt_entries q i j =
     (case entry q i of
        None \<Rightarrow> None
      | Some a \<Rightarrow>
          (case entry q j of
             None \<Rightarrow> None
           | Some b \<Rightarrow> Some (key_of q a < key_of q b)))"

function bubble_up_loop :: "('k::order, 'v) apq \<Rightarrow> int \<Rightarrow> (unit, ('k, 'v) apq) outcome" where
  "bubble_up_loop q i =
     (case lt_entries q i ((i - 1) div 2) of
        None \<Rightarrow> Raise IndexError q
      | Some c \<Rightarrow>
          if c then
            (case swap_entries q i ((i - 1) div 2) of
               Raise e q' \<Rightarrow> Raise e q'
             | Return u q' \<Rightarrow> bubble_up_loop q' ((i - 1) div 2))
          else Return () q)"
  by pat_completeness auto
termination
proof (relation "measure (\<lambda>(q, i). if 0 \<le> i then nat i + 1 else nat (- i) - 1)", goal_cases)
  case 1
  show ?case by simp
next
  case (2 q i c u q')
  have ne: "i \<noteq> (i - 1) div 2"
  proof
    assume eq: "i = (i - 1) div 2"
    from 2(1,2) show False
      unfolding eq[symmetric] by (auto simp: lt_entries_def split: option.splits)
  qed
  then show ?case by (auto simp: nat_less_iff nat_le_iff) 
qed


definition bubble_up :: "('k::order, 'v) apq \<Rightarrow> int \<Rightarrow> (unit, ('k, 'v) apq) outcome" where
  "bubble_up q i = (if i > 0 then bubble_up_loop q i else Return () q)"

definition min_leaf :: "('k::ord, 'v) apq \<Rightarrow> int \<Rightarrow> int option" where
  "min_leaf q i =
     (if 2 * i + 2 > int (length (queue q)) - 1 then Some (2 * i + 1)
      else
        (case lt_entries q (2 * i + 1) (2 * i + 2) of
           None \<Rightarrow> None
         | Some c \<Rightarrow> if c then Some (2 * i + 1) else Some (2 * i + 2)))"

partial_function (option) bubble_down ::
  "('k::ord, 'v) apq \<Rightarrow> int \<Rightarrow> (unit, ('k, 'v) apq) outcome option" where
  "bubble_down q i =
     (if 2 * i + 1 < int (length (queue q)) then
        (case entry q i of
           None \<Rightarrow> Some (Raise IndexError q)
         | Some a \<Rightarrow>
             (case min_leaf q i of
                None \<Rightarrow> Some (Raise IndexError q)
              | Some ml \<Rightarrow>
                  (case lt_entries q i ml of
                     None \<Rightarrow> Some (Raise IndexError q)
                   | Some c \<Rightarrow>
                       if c then Some (Return () q)
                       else
                         (case swap_entries q i ml of
                            Raise e q' \<Rightarrow> Some (Raise e q')
                          | Return u q' \<Rightarrow> bubble_down q' ml))))
      else Some (Return () q))"

definition add :: "('k::order, 'v) apq \<Rightarrow> 'k \<Rightarrow> 'v \<Rightarrow> (nat, ('k, 'v) apq) outcome" where
  "add q k item =
     (let i = int (length (queue q));
          h = length (cells q);
          q1 = q\<lparr>queue := queue q @ [h],
                 cells := cells q @ [\<lparr>key = k, val = item, index = i\<rparr>]\<rparr>
      in case bubble_up q1 i of
           Raise e q' \<Rightarrow> Raise e q'
         | Return u q' \<Rightarrow> Return h q')"

definition min_apq :: "('k, 'v) apq \<Rightarrow> (nat, ('k, 'v) apq) outcome" where
  "min_apq q = (case entry q 0 of None \<Rightarrow> Raise IndexError q | Some h \<Rightarrow> Return h q)"

definition pop_last :: "('k, 'v) apq \<Rightarrow> (nat, ('k, 'v) apq) outcome" where
  "pop_last q =
     (if queue q = [] then Raise IndexError q
      else Return (last (queue q)) (q\<lparr>queue := butlast (queue q)\<rparr>))"

definition swap_with_last :: "('k, 'v) apq \<Rightarrow> int \<Rightarrow> (unit, ('k, 'v) apq) outcome" where
  "swap_with_last q i =
     (case entry q (- 1) of
        None \<Rightarrow> Raise IndexError q
      | Some x \<Rightarrow>
          (case entry q i of
             None \<Rightarrow> Raise IndexError q
           | Some y \<Rightarrow>
               (case put q i x of
                  None \<Rightarrow> Raise IndexError q
                | Some q1 \<Rightarrow>
                    (case put q1 (- 1) y of
                       None \<Rightarrow> Raise IndexError q1
                     | Some q2 \<Rightarrow> Return () q2))))"

definition remove_min :: "('k::ord, 'v) apq \<Rightarrow> (nat, ('k, 'v) apq) outcome option" where
  "remove_min q =
     (case entry q 0 of
        None \<Rightarrow> Some (Raise IndexError q)
      | Some a \<Rightarrow>
          (let q1 = set_index q a (int (length (queue q)) - 1)
           in case entry q1 (int (length (queue q1)) - 1) of
                None \<Rightarrow> Some (Raise IndexError q1)
              | Some b \<Rightarrow>
                  (let q2 = set_index q1 b 0
                   in case swap_with_last q2 0 of
                        Raise e q3 \<Rightarrow> Some (Raise e q3)
                      | Return u q3 \<Rightarrow>
                          (case pop_last q3 of
                             Raise e q4 \<Rightarrow> Some (Raise e q4)
                           | Return removed q4 \<Rightarrow>
                               (case bubble_down q4 0 of
                                  None \<Rightarrow> None
                                | Some (Raise e q5) \<Rightarrow> Some (Raise e q5)
                                | Some (Return u q5) \<Rightarrow> Some (Return removed q5))))))"

definition update_key ::
  "('k::order, 'v) apq \<Rightarrow> nat \<Rightarrow> 'k \<Rightarrow> (unit, ('k, 'v) apq) outcome option" where
  "update_key q h newkey =
     (if key_of q h > newkey then
        (let q1 = set_key q h newkey in Some (bubble_up q1 (index_of q1 h)))
      else if key_of q h < newkey then
        (let q1 = set_key q h newkey in bubble_down q1 (index_of q1 h))
      else Some (Return () q))"

definition get_key :: "('k, 'v) apq \<Rightarrow> nat \<Rightarrow> 'k" where
  "get_key q h = key_of q h"

definition remove_apq :: "('k::order, 'v) apq \<Rightarrow> nat \<Rightarrow> (nat, ('k, 'v) apq) outcome option" where
  "remove_apq q h =
     (case entry q (index_of q h) of
        None \<Rightarrow> Some (Raise IndexError q)
      | Some a \<Rightarrow>
          (let q1 = set_index q a (int (length (queue q)) - 1);
               i1 = index_of q1 h
           in case entry q1 (int (length (queue q1)) - 1) of
                None \<Rightarrow> Some (Raise IndexError q1)
              | Some b \<Rightarrow>
                  (let q2 = set_index q1 b i1
                   in case swap_with_last q2 (index_of q2 h) of
                        Raise e q3 \<Rightarrow> Some (Raise e q3)
                      | Return u q3 \<Rightarrow>
                          (case pop_last q3 of
                             Raise e q4 \<Rightarrow> Some (Raise e q4)
                           | Return removed q4 \<Rightarrow>
                               (case bubble_down q4 (index_of q4 h) of
                                  None \<Rightarrow> None
                                | Some (Raise e q5) \<Rightarrow> Some (Raise e q5)
                                | Some (Return u q5) \<Rightarrow>
                                    (case bubble_up q5 (index_of q5 h) of
                                       Raise e q6 \<Rightarrow> Some (Raise e q6)
                                     | Return u q6 \<Rightarrow> Some (Return removed q6)))))))"


section \<open>Dijkstra\<close>

datatype loc = LocInt int | LocHandle nat

record 'a dstate =
  open_q :: "(int, 'a) apq"
  locs :: "('a \<times> loc) list"
  closed :: "('a \<times> int \<times> 'a option) list"
  preds :: "('a \<times> 'a option) list"

fun relax ::
  "'a vertex \<Rightarrow> 'a \<Rightarrow> nat \<Rightarrow> ('a, int) edge list \<Rightarrow> 'a dstate \<Rightarrow>
   (unit, 'a dstate) outcome option" where
  "relax v vert m [] s = Some (Return () s)"
| "relax v vert m (e # es) s =
     (case opposite e v of
        None \<Rightarrow> Some (Raise AttributeError s)
      | Some opp \<Rightarrow>
          (case map_of (closed s) (element opp) of
             Some c \<Rightarrow> relax v vert m es s
           | None \<Rightarrow>
               (let newcost = key_of (open_q s) m + edge_element e
                in case map_of (locs s) (element opp) of
                     None \<Rightarrow>
                       (let s1 = s\<lparr>preds := AList.update (element opp) (Some vert) (preds s)\<rparr>
                        in case add (open_q s1) newcost (element opp) of
                             Raise er q \<Rightarrow> Some (Raise er (s1\<lparr>open_q := q\<rparr>))
                           | Return added q \<Rightarrow>
                               relax v vert m es
                                 (s1\<lparr>open_q := q,
                                     locs := AList.update (element opp) (LocHandle added)
                                       (locs s1)\<rparr>))
                   | Some (LocInt n) \<Rightarrow> Some (Raise AttributeError s)
                   | Some (LocHandle h) \<Rightarrow>
                       if key_of (open_q s) h > newcost then
                         (let s1 = s\<lparr>preds := AList.update (element opp) (Some vert) (preds s)\<rparr>
                          in case update_key (open_q s1) h newcost of
                               None \<Rightarrow> None
                             | Some (Raise er q) \<Rightarrow> Some (Raise er (s1\<lparr>open_q := q\<rparr>))
                             | Some (Return u q) \<Rightarrow> relax v vert m es (s1\<lparr>open_q := q\<rparr>))
                       else relax v vert m es s)))"

definition visit ::
  "('a \<Rightarrow> error + 'a vertex option) \<Rightarrow> ('a, int, 'z) graph_scheme \<Rightarrow> 'a dstate \<Rightarrow> nat \<Rightarrow>
   (unit, 'a dstate) outcome option" where
  "visit lookup g s m =
     (let vert = val (cells (open_q s) ! m)
      in case map_of (locs s) vert of
           None \<Rightarrow> Some (Raise KeyError s)
         | Some loc \<Rightarrow>
             (let s1 = s\<lparr>locs := AList.delete vert (locs s)\<rparr>
              in case map_of (preds s1) vert of
                   None \<Rightarrow> Some (Raise KeyError s1)
                 | Some pred \<Rightarrow>
                     (let s2 = s1\<lparr>preds := AList.delete vert (preds s1)\<rparr>;
                          s3 = s2\<lparr>closed :=
                                 AList.update vert (key_of (open_q s2) m, pred) (closed s2)\<rparr>
                      in case lookup vert of
                           Inl er \<Rightarrow> Some (Raise er s3)
                         | Inr None \<Rightarrow> Some (Return () s3)
                         | Inr (Some v) \<Rightarrow>
                             (case get_edges g (Some v) of
                                None \<Rightarrow> Some (Return () s3)
                              | Some es \<Rightarrow> relax v vert m es s3))))"

partial_function (option) dijkstra_loop ::
  "('a \<Rightarrow> error + 'a vertex option) \<Rightarrow> ('a, int, 'z) graph_scheme \<Rightarrow> 'a dstate \<Rightarrow>
   (('a \<times> int \<times> 'a option) list, 'a dstate) outcome option" where
  "dijkstra_loop lookup g s =
     (if length (queue (open_q s)) > 0 then
        (case remove_min (open_q s) of
           None \<Rightarrow> None
         | Some (Raise er q) \<Rightarrow> Some (Raise er (s\<lparr>open_q := q\<rparr>))
         | Some (Return m q) \<Rightarrow>
             (case visit lookup g (s\<lparr>open_q := q\<rparr>) m of
                None \<Rightarrow> None
              | Some (Raise er s') \<Rightarrow> Some (Raise er s')
              | Some (Return u s') \<Rightarrow> dijkstra_loop lookup g s'))
      else Some (Return (closed s) s))"

definition dijkstra_with ::
  "('a \<Rightarrow> error + 'a vertex option) \<Rightarrow> ('a, int, 'z) graph_scheme \<Rightarrow> 'a \<Rightarrow>
   (('a \<times> int \<times> 'a option) list, 'a dstate) outcome option" where
  "dijkstra_with lookup g vertex =
     (let s0 = \<lparr>open_q = APQ_init, locs = [], closed = [], preds = [(vertex, None)]\<rparr>
      in case add (open_q s0) 0 vertex of
           Raise er q \<Rightarrow> Some (Raise er (s0\<lparr>open_q := q\<rparr>))
         | Return h q \<Rightarrow>
             dijkstra_loop lookup g
               (s0\<lparr>open_q := q, locs := AList.update vertex (LocInt 0) (locs s0)\<rparr>))"

text \<open>\<open>dijkstra\<close> calls \<open>graph.get_vertex_by_label\<close>, which is the scan of \<open>Graph\<close> (a miss
  is \<open>None\<close>) or the dict lookup of \<open>RouteMap\<close> (a miss raises), by the class of its
  argument.\<close>

definition graph_lookup :: "('a, 'w, 'z) graph_scheme \<Rightarrow> 'a \<Rightarrow> error + 'a vertex option" where
  "graph_lookup g x = Inr (get_vertex_by_label g x)"

definition dijkstra ::
  "('a, int, 'z) graph_scheme \<Rightarrow> 'a \<Rightarrow>
   (('a \<times> int \<times> 'a option) list, 'a dstate) outcome option" where
  "dijkstra g vertex = dijkstra_with (graph_lookup g) g vertex"

section \<open>RouteMap\<close>

record ('a, 'w, 'c) routemap = "('a, 'w) graph" +
  vertexcoords :: "('a vertex \<times> 'c \<times> 'c) list"
  findvertex :: "('a \<times> 'a vertex) list"

definition RouteMap_init :: "('a, 'w, 'c) routemap" where
  "RouteMap_init = \<lparr>struct = [], next_id = 0, vertexcoords = [], findvertex = []\<rparr>"

definition RouteMap_add_vertex ::
  "('a, 'w, 'c) routemap \<Rightarrow> 'a \<Rightarrow> 'c \<Rightarrow> 'c \<Rightarrow> 'a vertex \<times> ('a, 'w, 'c) routemap" where
  "RouteMap_add_vertex r x coord1 coord2 =
     (let v = Vertex (next_id r) x
      in (v, r\<lparr>findvertex := AList.update x v (findvertex r),
                vertexcoords := AList.update v (coord1, coord2) (vertexcoords r),
                struct := AList.update v [] (struct r),
                next_id := Suc (next_id r)\<rparr>))"

definition RouteMap_get_vertex_by_label ::
  "('a, 'w, 'c) routemap \<Rightarrow> 'a \<Rightarrow> error + 'a vertex" where
  "RouteMap_get_vertex_by_label r x =
     (case map_of (findvertex r) x of None \<Rightarrow> Inl KeyError | Some v \<Rightarrow> Inr v)"






section \<open>Properties the claims speak of\<close>

text \<open>Forget the final state of a call that may not terminate: \<open>None\<close> when it runs for
  ever, \<open>Inl\<close> the exception, \<open>Inr\<close> the returned value.\<close>

definition result_of :: "('r, 's) outcome option \<Rightarrow> (error + 'r) option" where
  "result_of r = map_option (\<lambda>x. case x of Raise er s \<Rightarrow> Inl er | Return y s \<Rightarrow> Inr y) r"

text \<open>The heap order (every entry below the root has a parent whose key is not larger)
  and the handle rule (the \<open>_index\<close> field of the entry at position \<open>i\<close> is \<open>i\<close>).\<close>

definition heap_ordered :: "('k::ord, 'v) apq \<Rightarrow> bool" where
  "heap_ordered q =
     list_all (\<lambda>i. key_of q (queue q ! ((i - 1) div 2)) \<le> key_of q (queue q ! i))
       [1..<length (queue q)]"

definition index_ok :: "('k, 'v) apq \<Rightarrow> bool" where
  "index_ok q = list_all (\<lambda>i. index_of q (queue q ! i) = int i) [0..<length (queue q)]"

section \<open>Call sequences and example inputs\<close>

text \<open>A sequence of construction calls on a \<open>RouteMap\<close>: its own \<open>add_vertex\<close> and the
  \<open>add_edge\<close> it inherits.\<close>

datatype ('a, 'w, 'c) routemap_call =
  RAddVertex 'a 'c 'c
  | RAddEdge "'a vertex" "'a vertex" 'w pyflag

fun run_routemap_call ::
  "('a, 'w, 'c) routemap \<Rightarrow> ('a, 'w, 'c) routemap_call \<Rightarrow> ('a, 'w, 'c) routemap" where
  "run_routemap_call r (RAddVertex x coord1 coord2) = snd (RouteMap_add_vertex r x coord1 coord2)"
| "run_routemap_call r (RAddEdge v w x oneway) = snd (add_edge r v w x oneway)"

definition routemap_calls :: "('a, 'w, 'c) routemap_call list \<Rightarrow> ('a, 'w, 'c) routemap" where
  "routemap_calls cs = foldl run_routemap_call RouteMap_init cs"


definition two_vertices :: "(string, int) graph" where
  "two_vertices = run_calls Graph_init [AddVertex ''a'', AddVertex ''b'']"

definition one_way_graph :: "(string, int) graph" where
  "one_way_graph =
     run_calls Graph_init
       [AddVertex ''a'', AddVertex ''b'', AddEdge (Vertex 0 ''a'') (Vertex 1 ''b'') 7 PyTrue]"

definition detour_graph :: "(string, int) graph" where
  "detour_graph =
     run_calls Graph_init
       [AddVertex ''S'', AddVertex ''T'', AddVertex ''U'',
        AddEdge (Vertex 0 ''S'') (Vertex 2 ''U'') 10 PyFalse,
        AddEdge (Vertex 0 ''S'') (Vertex 1 ''T'') 1 PyFalse,
        AddEdge (Vertex 1 ''T'') (Vertex 2 ''U'') 1 PyFalse]"

definition triangle :: "(string, int) call list \<Rightarrow> (string, int) graph" where
  "triangle es =
     run_calls Graph_init ([AddVertex ''A'', AddVertex ''B'', AddVertex ''C''] @ es)"

definition small_map :: "(string, int, int) routemap" where
  "small_map =
     routemap_calls
       [RAddVertex ''A'' 1 2, RAddVertex ''B'' 3 4,
        RAddEdge (Vertex 0 ''A'') (Vertex 1 ''B'') 5 PyFalse]"



definition equal_keys :: "(int, string) apq" where
  "equal_keys =
     \<lparr>queue = [0, 1],
        cells = [\<lparr>key = 1, val = ''a'', index = 0\<rparr>, \<lparr>key = 1, val = ''b'', index = 1\<rparr>]\<rparr>"

definition three_keys :: "(int, string) apq" where
  "three_keys =
     \<lparr>queue = [0, 1, 2],
        cells = [\<lparr>key = 3, val = ''a'', index = 0\<rparr>, \<lparr>key = 1, val = ''b'', index = 1\<rparr>,
                 \<lparr>key = 2, val = ''c'', index = 2\<rparr>]\<rparr>"

section \<open>Reachable labels and what a run of \<open>dijkstra\<close> keeps\<close>








section \<open>The adaptable priority queue on concrete inputs\<close>

lemmas apq_defs = add_def APQ_init_def bubble_up_def lt_entries_def entry_def py_pos_def
  key_of_def index_of_def swap_entries_def set_index_def set_key_def put_def min_leaf_def
  pop_last_def swap_with_last_def remove_min_def update_key_def remove_apq_def Let_def

text \<open>
  Claim C2 (the heap order and the handle rule hold after every sequence of operations).
  \<open>bubble_up\<close> tests \<open>index > 0\<close> once, before its loop. When the new entry reaches the
  root the loop condition compares \<open>_queue[0]\<close> with \<open>_queue[(0 - 1) // 2]\<close>, which is
  \<open>_queue[-1]\<close>, the last entry, and exchanges the two when the root is smaller. After
  \<open>add(5, a)\<close> and \<open>add(3, b)\<close> the queue holds the keys 5, 3 in this order and the
  second entry carries the index \<open>-1\<close>.
\<close>

theorem add_smaller_key_breaks_heap:
  "add (APQ_init :: (int, string) apq) 5 ''a''
     = Return 0 \<lparr>queue = [0], cells = [\<lparr>key = 5, val = ''a'', index = 0\<rparr>]\<rparr> \<and>
   add \<lparr>queue = [0], cells = [\<lparr>key = 5 :: int, val = ''a'', index = 0\<rparr>]\<rparr> 3 ''b''
     = Return 1 \<lparr>queue = [0, 1],
                  cells = [\<lparr>key = 5, val = ''a'', index = 0\<rparr>,
                           \<lparr>key = 3, val = ''b'', index = - 1\<rparr>]\<rparr> \<and>
   \<not> heap_ordered \<lparr>queue = [0, 1],
                     cells = [\<lparr>key = 5 :: int, val = ''a'', index = 0\<rparr>,
                              \<lparr>key = 3, val = ''b'', index = - 1\<rparr>]\<rparr> \<and>
   \<not> index_ok \<lparr>queue = [0, 1],
                 cells = [\<lparr>key = 5 :: int, val = ''a'', index = 0\<rparr>,
                          \<lparr>key = 3, val = ''b'', index = - 1\<rparr>]\<rparr>"
  by (simp add: apq_defs heap_ordered_def index_ok_def)

text \<open>
  Claim C3 (\<open>remove(handle)\<close> returns the entry of the handle and leaves a valid heap).
  \<open>remove\<close> first stores \<open>len - 1\<close> in \<open>_queue[element._index]._index\<close>; that entry is
  \<open>element\<close> itself, so every later read of \<open>element._index\<close> gives \<open>len - 1\<close>. The
  exchange is then of the last slot with itself, \<open>pop\<close> takes the last entry, whichever
  it is, and \<open>bubble_up(len - 1)\<close> reads past the end of the shortened list. On the
  valid two-entry heap below, \<open>remove\<close> of the root's handle raises \<open>IndexError\<close> and the
  queue that is left still holds that entry, now with index 1; the other entry is gone.
\<close>

theorem remove_raises_on_two_entries:
  "add (APQ_init :: (int, string) apq) 1 ''a''
     = Return 0 \<lparr>queue = [0], cells = [\<lparr>key = 1, val = ''a'', index = 0\<rparr>]\<rparr> \<and>
   add \<lparr>queue = [0], cells = [\<lparr>key = 1 :: int, val = ''a'', index = 0\<rparr>]\<rparr> 2 ''b''
     = Return 1 \<lparr>queue = [0, 1],
                  cells = [\<lparr>key = 1, val = ''a'', index = 0\<rparr>,
                           \<lparr>key = 2, val = ''b'', index = 1\<rparr>]\<rparr> \<and>
   heap_ordered \<lparr>queue = [0, 1],
                  cells = [\<lparr>key = 1 :: int, val = ''a'', index = 0\<rparr>,
                           \<lparr>key = 2, val = ''b'', index = 1\<rparr>]\<rparr> \<and>
   index_ok \<lparr>queue = [0, 1],
              cells = [\<lparr>key = 1 :: int, val = ''a'', index = 0\<rparr>,
                       \<lparr>key = 2, val = ''b'', index = 1\<rparr>]\<rparr> \<and>
   remove_apq \<lparr>queue = [0, 1],
                cells = [\<lparr>key = 1 :: int, val = ''a'', index = 0\<rparr>,
                         \<lparr>key = 2, val = ''b'', index = 1\<rparr>]\<rparr> 0
     = Some (Raise IndexError
         \<lparr>queue = [0],
            cells = [\<lparr>key = 1, val = ''a'', index = 1\<rparr>,
                     \<lparr>key = 2, val = ''b'', index = 1\<rparr>]\<rparr>)"
  by (simp add: apq_defs heap_ordered_def index_ok_def bubble_down.simps)

section \<open>One step of bubble-down\<close>

lemma py_pos_nat: "n < len \<Longrightarrow> py_pos len (int n) = Some n"
  by (simp add: py_pos_def)

lemma entry_nat: "n < length (queue q) \<Longrightarrow> entry q (int n) = Some (queue q ! n)"
  by (simp add: entry_def py_pos_nat)

lemma entry_set_index: "entry (set_index q h i) j = entry q j"
  by (simp add: entry_def set_index_def)

lemma queue_set_index: "queue (set_index q h i) = queue q"
  by (simp add: set_index_def)

lemma lt_entries_nat:
  "m < length (queue q) \<Longrightarrow> n < length (queue q) \<Longrightarrow>
   lt_entries q (int m) (int n) = Some (key_of q (queue q ! m) < key_of q (queue q ! n))"
  by (simp add: lt_entries_def entry_nat)

lemma swap_entries_nat:
  assumes "m < length (queue q)" and "n < length (queue q)"
  shows "swap_entries q (int m) (int n) =
     Return ()
       ((set_index (set_index q (queue q ! m) (int n)) (queue q ! n) (int m))
          \<lparr>queue := (queue q)[m := queue q ! n, n := queue q ! m]\<rparr>)"
  using assms
  by (simp add: swap_entries_def entry_nat put_def Let_def py_pos_nat entry_set_index
      queue_set_index)

lemma min_leaf_nat:
  assumes "2 * i + 1 < length (queue q)"
  shows "min_leaf q (int i) =
     Some (int (if 2 * i + 2 < length (queue q) \<and>
                  \<not> key_of q (queue q ! (2 * i + 1)) < key_of q (queue q ! (2 * i + 2))
               then 2 * i + 2 else 2 * i + 1))"
proof (cases "2 * i + 2 < length (queue q)")
  case True
  have "lt_entries q (2 * int i + 1) (2 * int i + 2) =
      Some (key_of q (queue q ! (2 * i + 1)) < key_of q (queue q ! (2 * i + 2)))"
    using lt_entries_nat[of "2 * i + 1" q "2 * i + 2"] assms True by (simp add: ac_simps)
  with True show ?thesis by (simp add: min_leaf_def)
next
  case False
  with assms show ?thesis by (simp add: min_leaf_def)
qed

text \<open>
  Claim C9, as the code has it. At an index \<open>i\<close> that has a child, \<open>min_leaf\<close> gives the
  left child when there is no right child; with two children it gives the left one when
  its key is less than the right one's and the right one otherwise, so a child whose key
  is at most the other's. The descent stops, leaving the queue as it is, when the key at
  \<open>i\<close> is less than the chosen child's key. Otherwise, also when the two keys are equal,
  the two entries and their index fields are exchanged and the descent goes on from the
  child.
\<close>

theorem bubble_down_step:
  fixes q :: "('k::linorder, 'v) apq"
  assumes "2 * i + 1 < length (queue q)"
  shows "\<exists>ml. min_leaf q (int i) = Some (int ml) \<and>
     (2 * i + 2 < length (queue q) \<longrightarrow>
        (ml = 2 * i + 1 \<or> ml = 2 * i + 2) \<and>
        (ml = 2 * i + 1 \<longleftrightarrow>
           key_of q (queue q ! (2 * i + 1)) < key_of q (queue q ! (2 * i + 2))) \<and>
        key_of q (queue q ! ml) \<le> key_of q (queue q ! (2 * i + 1)) \<and>
        key_of q (queue q ! ml) \<le> key_of q (queue q ! (2 * i + 2))) \<and>
     (\<not> 2 * i + 2 < length (queue q) \<longrightarrow> ml = 2 * i + 1) \<and>
     (key_of q (queue q ! i) < key_of q (queue q ! ml) \<longrightarrow>
        bubble_down q (int i) = Some (Return () q)) \<and>
     (\<not> key_of q (queue q ! i) < key_of q (queue q ! ml) \<longrightarrow>
        bubble_down q (int i) =
          bubble_down
            ((set_index (set_index q (queue q ! i) (int ml)) (queue q ! ml) (int i))
               \<lparr>queue := (queue q)[i := queue q ! ml, ml := queue q ! i]\<rparr>)
            (int ml))"
proof -
  define ml where "ml = (if 2 * i + 2 < length (queue q) \<and>
                  \<not> key_of q (queue q ! (2 * i + 1)) < key_of q (queue q ! (2 * i + 2))
               then 2 * i + 2 else 2 * i + 1)"
  have ml: "min_leaf q (int i) = Some (int ml)"
    unfolding ml_def using assms by (rule min_leaf_nat)
  have i: "i < length (queue q)" using assms by simp
  have mlr: "ml < length (queue q)" using assms by (simp add: ml_def)
  have guard: "2 * int i + 1 < int (length (queue q))" using assms by simp
  have lt: "lt_entries q (int i) (int ml) =
      Some (key_of q (queue q ! i) < key_of q (queue q ! ml))"
    using i mlr by (rule lt_entries_nat)
  have unfold: "bubble_down q (int i) =
      (if key_of q (queue q ! i) < key_of q (queue q ! ml) then Some (Return () q)
       else bubble_down
            ((set_index (set_index q (queue q ! i) (int ml)) (queue q ! ml) (int i))
               \<lparr>queue := (queue q)[i := queue q ! ml, ml := queue q ! i]\<rparr>)
            (int ml))"
    by (subst bubble_down.simps)
      (simp add: guard entry_nat[OF i] ml lt swap_entries_nat[OF i mlr])
  show ?thesis
  proof (intro exI[of _ ml] conjI impI)
    show "min_leaf q (int i) = Some (int ml)" by (rule ml)
  qed (auto simp: unfold ml_def)
qed

theorem bubble_down_step_witness:
  "min_leaf three_keys 0 = Some 1 \<and>
   bubble_down three_keys 0 =
     Some (Return ()
       \<lparr>queue = [1, 0, 2],
          cells = [\<lparr>key = 3, val = ''a'', index = 1\<rparr>, \<lparr>key = 1, val = ''b'', index = 0\<rparr>,
                   \<lparr>key = 2, val = ''c'', index = 2\<rparr>]\<rparr>) \<and>
   bubble_down equal_keys 0 =
     bubble_down
       \<lparr>queue = [1, 0],
          cells = [\<lparr>key = 1, val = ''a'', index = 1\<rparr>, \<lparr>key = 1, val = ''b'', index = 0\<rparr>]\<rparr> 1"
proof -
  have m3: "min_leaf three_keys 0 = Some 1"
    by (simp add: three_keys_def apq_defs)
  have m2: "min_leaf equal_keys 0 = Some 1"
    by (simp add: equal_keys_def apq_defs)
  from bubble_down_step[of 0 three_keys]
  obtain ml where a: "min_leaf three_keys (int 0) = Some (int ml)"
    and b: "\<not> key_of three_keys (queue three_keys ! 0) < key_of three_keys (queue three_keys ! ml) \<longrightarrow>
        bubble_down three_keys (int 0) =
          bubble_down
            ((set_index (set_index three_keys (queue three_keys ! 0) (int ml))
                (queue three_keys ! ml) (int 0))
               \<lparr>queue := (queue three_keys)[0 := queue three_keys ! ml, ml := queue three_keys ! 0]\<rparr>)
            (int ml)"
    by (auto simp: three_keys_def)
  from a m3 have ml: "ml = 1" by simp
  from b have 3: "bubble_down three_keys 0 =
     Some (Return ()
       \<lparr>queue = [1, 0, 2],
          cells = [\<lparr>key = 3, val = ''a'', index = 1\<rparr>, \<lparr>key = 1, val = ''b'', index = 0\<rparr>,
                   \<lparr>key = 2, val = ''c'', index = 2\<rparr>]\<rparr>)"
    unfolding ml by (simp add: three_keys_def key_of_def set_index_def bubble_down.simps)
  from bubble_down_step[of 0 equal_keys]
  obtain ml' where a': "min_leaf equal_keys (int 0) = Some (int ml')"
    and b': "\<not> key_of equal_keys (queue equal_keys ! 0) < key_of equal_keys (queue equal_keys ! ml') \<longrightarrow>
        bubble_down equal_keys (int 0) =
          bubble_down
            ((set_index (set_index equal_keys (queue equal_keys ! 0) (int ml'))
                (queue equal_keys ! ml') (int 0))
               \<lparr>queue := (queue equal_keys)[0 := queue equal_keys ! ml', ml' := queue equal_keys ! 0]\<rparr>)
            (int ml')"
    by (auto simp: equal_keys_def)
  from a' m2 have ml': "ml' = 1" by simp
  from b' have 2: "bubble_down equal_keys 0 =
     bubble_down
       \<lparr>queue = [1, 0],
          cells = [\<lparr>key = 1, val = ''a'', index = 1\<rparr>, \<lparr>key = 1, val = ''b'', index = 0\<rparr>]\<rparr> 1"
    unfolding ml' by (simp add: equal_keys_def key_of_def set_index_def)
  from m3 3 2 show ?thesis by simp
qed

text \<open>
  Claim C9 as stated has the descent stop when the two keys are equal. The loop leaves
  only on \<open>_queue[index] < _queue[min_leaf]\<close>: a root and its only child, both of key 1,
  are exchanged.
\<close>

theorem bubble_down_swaps_equal_keys:
  "bubble_down equal_keys 0 =
     Some (Return ()
       \<lparr>queue = [1, 0],
          cells = [\<lparr>key = 1, val = ''a'', index = 1\<rparr>, \<lparr>key = 1, val = ''b'', index = 0\<rparr>]\<rparr>)"
  by (simp add: equal_keys_def bubble_down.simps apq_defs)

section \<open>Graph construction\<close>

lemmas graph_defs = run_calls_def add_vertex_def add_edge_def set_edge_def Graph_init_def Let_def

lemma map_of_set_edge:
  "map_of s v = Some adj \<Longrightarrow> map_of (set_edge s v w e) = (map_of s)(v \<mapsto> AList.update w e adj)"
  by (simp add: set_edge_def AList.update_conv')

lemma keys_set_edge: "map fst (set_edge s v w e) = map fst s"
  by (auto simp: set_edge_def AList.update_keys map_of_eq_None_iff split: option.splits
      intro: rev_image_eqI)

lemma get_edge_set_edge:
  assumes "struct g' = set_edge (struct g) v w e" and "map_of (struct g) v \<noteq> None"
  shows "get_edge g' a b = (if a = v \<and> b = w then Some e else get_edge g a b)"
proof -
  from assms(2) obtain adj where adj: "map_of (struct g) v = Some adj" by auto
  show ?thesis
    by (cases "a = v")
      (simp_all add: get_edge_def assms(1) map_of_set_edge[OF adj] adj AList.update_conv')
qed

lemma get_edge_set_edge2:
  assumes "struct g' = set_edge (set_edge (struct g) v w e) w v e"
    and v: "map_of (struct g) v \<noteq> None" and w: "map_of (struct g) w \<noteq> None"
  shows "get_edge g' a b =
     (if (a = v \<and> b = w) \<or> (a = w \<and> b = v) then Some e else get_edge g a b)"
proof -
  define g1 where "g1 = g\<lparr>struct := set_edge (struct g) v w e\<rparr>"
  have s1: "struct g1 = set_edge (struct g) v w e" by (simp add: g1_def)
  from v obtain adj where adj: "map_of (struct g) v = Some adj" by auto
  have w1: "map_of (struct g1) w \<noteq> None"
    using w by (simp add: s1 map_of_set_edge[OF adj])
  have A: "get_edge g' a b = (if a = w \<and> b = v then Some e else get_edge g1 a b)"
    by (rule get_edge_set_edge[OF _ w1]) (simp add: assms(1) s1)
  have B: "get_edge g1 a b = (if a = v \<and> b = w then Some e else get_edge g a b)"
    by (rule get_edge_set_edge[OF s1 v])
  show ?thesis
    unfolding A B by argo
qed

lemma is_vertex_iff: "v \<in> set (vertices g) \<longleftrightarrow> map_of (struct g) v \<noteq> None"
  by (auto simp: vertices_def map_of_eq_None_iff)

lemma add_edge_absent:
  "v \<notin> set (vertices g) \<or> w \<notin> set (vertices g) \<Longrightarrow> add_edge g v w x oneway = (None, g)"
  by (auto simp: add_edge_def is_vertex_iff)

lemma add_edge_present:
  assumes "v \<in> set (vertices g)" and "w \<in> set (vertices g)"
  shows "fst (add_edge g v w x oneway) = Some (Edge (next_id g) v w x)"
    and "vertices (snd (add_edge g v w x oneway)) = vertices g"
    and "next_id (snd (add_edge g v w x oneway)) = Suc (next_id g)"
    and "get_edge (snd (add_edge g v w x oneway)) a b =
      (if (a = v \<and> b = w \<and> (oneway \<noteq> PyOther \<or> v = w)) \<or> (oneway = PyFalse \<and> a = w \<and> b = v)
       then Some (Edge (next_id g) v w x) else get_edge g a b)"
proof -
  from assms have v: "map_of (struct g) v \<noteq> None" and w: "map_of (struct g) w \<noteq> None"
    by (simp_all add: is_vertex_iff)
  then obtain av aw where av: "map_of (struct g) v = Some av" and aw: "map_of (struct g) w = Some aw"
    by auto
  show "fst (add_edge g v w x oneway) = Some (Edge (next_id g) v w x)"
    using av aw by (simp add: add_edge_def Let_def)
  show "vertices (snd (add_edge g v w x oneway)) = vertices g"
    using av aw by (simp add: add_edge_def Let_def vertices_def keys_set_edge)
  show "next_id (snd (add_edge g v w x oneway)) = Suc (next_id g)"
    using av aw by (simp add: add_edge_def Let_def)
  show "get_edge (snd (add_edge g v w x oneway)) a b =
      (if (a = v \<and> b = w \<and> (oneway \<noteq> PyOther \<or> v = w)) \<or> (oneway = PyFalse \<and> a = w \<and> b = v)
       then Some (Edge (next_id g) v w x) else get_edge g a b)"
  proof (cases "oneway = PyTrue \<or> v = w")
    case True
    have eq: "get_edge (snd (add_edge g v w x oneway)) a b =
        (if a = v \<and> b = w then Some (Edge (next_id g) v w x) else get_edge g a b)"
      by (rule get_edge_set_edge[OF _ v]) (use av aw True in \<open>simp add: add_edge_def Let_def\<close>)
    from True have "((a = v \<and> b = w \<and> (oneway \<noteq> PyOther \<or> v = w)) \<or>
        (oneway = PyFalse \<and> a = w \<and> b = v)) = (a = v \<and> b = w)"
      by (cases oneway) blast+
    with eq show ?thesis by (simp only:)
  next
    case False
    note nottrue = False
    show ?thesis
    proof (cases "oneway = PyFalse")
      case True
      have eq: "get_edge (snd (add_edge g v w x oneway)) a b =
          (if (a = v \<and> b = w) \<or> (a = w \<and> b = v)
           then Some (Edge (next_id g) v w x) else get_edge g a b)"
        by (rule get_edge_set_edge2[OF _ v w])
          (use av aw nottrue True in \<open>simp add: add_edge_def Let_def\<close>)
      from True have "((a = v \<and> b = w \<and> (oneway \<noteq> PyOther \<or> v = w)) \<or>
          (oneway = PyFalse \<and> a = w \<and> b = v)) = ((a = v \<and> b = w) \<or> (a = w \<and> b = v))"
        by blast
      with eq show ?thesis by (simp only:)
    next
      case False
      with nottrue have other: "oneway = PyOther" and ne: "v \<noteq> w"
        by (cases oneway; blast)+
      have eq: "get_edge (snd (add_edge g v w x oneway)) a b = get_edge g a b"
        using av aw nottrue False by (simp add: add_edge_def Let_def get_edge_def)
      from other ne have "((a = v \<and> b = w \<and> (oneway \<noteq> PyOther \<or> v = w)) \<or>
          (oneway = PyFalse \<and> a = w \<and> b = v)) = False"
        by blast
      with eq show ?thesis by (simp only: if_False)
    qed
  qed
qed


text \<open>
  What \<open>add_edge(v, w, element, oneway)\<close> does, for every value of the flag. It returns
  \<open>None\<close> and leaves the graph as it was when \<open>v\<close> or \<open>w\<close> is not a vertex of the graph.
  Otherwise it returns a new edge from \<open>v\<close> to \<open>w\<close> and changes no vertex. When \<open>oneway\<close>
  is \<open>True\<close> or \<open>v = w\<close> it stores the edge under \<open>w\<close> in the map of \<open>v\<close>, whatever was
  stored there, and changes no other entry. When \<open>oneway\<close> is \<open>False\<close> and \<open>v \<noteq> w\<close> it
  stores it there and under \<open>v\<close> in the map of \<open>w\<close>, and changes no other entry. When
  \<open>oneway\<close> is neither \<open>True\<close> nor \<open>False\<close> and \<open>v \<noteq> w\<close> it stores the edge nowhere.
\<close>

theorem add_edge_contract:
  "(v \<notin> set (vertices g) \<or> w \<notin> set (vertices g) \<longrightarrow> add_edge g v w x oneway = (None, g)) \<and>
   (v \<in> set (vertices g) \<and> w \<in> set (vertices g) \<longrightarrow>
      (\<exists>g'. add_edge g v w x oneway = (Some (Edge (next_id g) v w x), g') \<and>
         vertices g' = vertices g \<and>
         (oneway = PyTrue \<or> v = w \<longrightarrow>
            get_edge g' v w = Some (Edge (next_id g) v w x) \<and>
            (\<forall>a b. (a, b) \<noteq> (v, w) \<longrightarrow> get_edge g' a b = get_edge g a b)) \<and>
         (oneway = PyFalse \<and> v \<noteq> w \<longrightarrow>
            get_edge g' v w = Some (Edge (next_id g) v w x) \<and>
            get_edge g' w v = Some (Edge (next_id g) v w x) \<and>
            (\<forall>a b. (a, b) \<noteq> (v, w) \<and> (a, b) \<noteq> (w, v) \<longrightarrow>
               get_edge g' a b = get_edge g a b)) \<and>
         (oneway = PyOther \<and> v \<noteq> w \<longrightarrow>
            (\<forall>a b. get_edge g' a b = get_edge g a b))))"
proof (intro conjI impI)
  assume "v \<notin> set (vertices g) \<or> w \<notin> set (vertices g)"
  then show "add_edge g v w x oneway = (None, g)"
    by (rule add_edge_absent)
next
  assume vw: "v \<in> set (vertices g) \<and> w \<in> set (vertices g)"
  note p = add_edge_present[of v g w x oneway]
  define g' where "g' = snd (add_edge g v w x oneway)"
  have 1: "add_edge g v w x oneway = (Some (Edge (next_id g) v w x), g')"
    using p(1) vw by (simp add: prod_eq_iff g'_def)
  have 2: "vertices g' = vertices g"
    using p(2) vw by (simp add: g'_def)
  have ge: "\<And>a b. get_edge g' a b =
      (if (a = v \<and> b = w \<and> (oneway \<noteq> PyOther \<or> v = w)) \<or> (oneway = PyFalse \<and> a = w \<and> b = v)
       then Some (Edge (next_id g) v w x) else get_edge g a b)"
    using p(4) vw by (simp add: g'_def)
  have 3: "oneway = PyTrue \<or> v = w \<longrightarrow>
            get_edge g' v w = Some (Edge (next_id g) v w x) \<and>
            (\<forall>a b. (a, b) \<noteq> (v, w) \<longrightarrow> get_edge g' a b = get_edge g a b)"
  proof (intro impI conjI allI)
    assume t: "oneway = PyTrue \<or> v = w"
    then have "oneway \<noteq> PyOther \<or> v = w" by auto
    then show "get_edge g' v w = Some (Edge (next_id g) v w x)" by (simp add: ge)
    fix a b assume ne: "(a, b) \<noteq> (v, w)"
    with t have "\<not> ((a = v \<and> b = w \<and> (oneway \<noteq> PyOther \<or> v = w)) \<or>
        (oneway = PyFalse \<and> a = w \<and> b = v))"
      by (cases oneway) auto
    then show "get_edge g' a b = get_edge g a b" by (simp only: ge if_False)
  qed
  have 4: "oneway = PyFalse \<and> v \<noteq> w \<longrightarrow>
            get_edge g' v w = Some (Edge (next_id g) v w x) \<and>
            get_edge g' w v = Some (Edge (next_id g) v w x) \<and>
            (\<forall>a b. (a, b) \<noteq> (v, w) \<and> (a, b) \<noteq> (w, v) \<longrightarrow>
               get_edge g' a b = get_edge g a b)"
  proof (intro impI conjI allI)
    assume f: "oneway = PyFalse \<and> v \<noteq> w"
    then show "get_edge g' v w = Some (Edge (next_id g) v w x)" by (simp add: ge)
    from f show "get_edge g' w v = Some (Edge (next_id g) v w x)" by (simp add: ge)
    fix a b assume "(a, b) \<noteq> (v, w) \<and> (a, b) \<noteq> (w, v)"
    then have "\<not> ((a = v \<and> b = w \<and> (oneway \<noteq> PyOther \<or> v = w)) \<or>
        (oneway = PyFalse \<and> a = w \<and> b = v))"
      by auto
    then show "get_edge g' a b = get_edge g a b" by (simp only: ge if_False)
  qed
  have 5: "oneway = PyOther \<and> v \<noteq> w \<longrightarrow> (\<forall>a b. get_edge g' a b = get_edge g a b)"
    by (simp add: ge)
  from 1 2 3 4 5
  show "\<exists>g'. add_edge g v w x oneway = (Some (Edge (next_id g) v w x), g') \<and>
         vertices g' = vertices g \<and>
         (oneway = PyTrue \<or> v = w \<longrightarrow>
            get_edge g' v w = Some (Edge (next_id g) v w x) \<and>
            (\<forall>a b. (a, b) \<noteq> (v, w) \<longrightarrow> get_edge g' a b = get_edge g a b)) \<and>
         (oneway = PyFalse \<and> v \<noteq> w \<longrightarrow>
            get_edge g' v w = Some (Edge (next_id g) v w x) \<and>
            get_edge g' w v = Some (Edge (next_id g) v w x) \<and>
            (\<forall>a b. (a, b) \<noteq> (v, w) \<and> (a, b) \<noteq> (w, v) \<longrightarrow>
               get_edge g' a b = get_edge g a b)) \<and>
         (oneway = PyOther \<and> v \<noteq> w \<longrightarrow>
            (\<forall>a b. get_edge g' a b = get_edge g a b))"
    by blast
qed

lemma two_vertices_value:
  "two_vertices = \<lparr>struct = [(Vertex 0 ''a'', []), (Vertex 1 ''b'', [])], next_id = 2\<rparr>"
  by (simp add: two_vertices_def graph_defs)

theorem add_edge_contract_witness:
  "add_edge two_vertices (Vertex 0 ''a'') (Vertex 5 ''z'') 3 PyFalse = (None, two_vertices) \<and>
   (\<exists>g'. add_edge two_vertices (Vertex 0 ''a'') (Vertex 1 ''b'') 3 PyFalse
            = (Some (Edge 2 (Vertex 0 ''a'') (Vertex 1 ''b'') 3), g') \<and>
          get_edge g' (Vertex 0 ''a'') (Vertex 1 ''b'')
            = Some (Edge 2 (Vertex 0 ''a'') (Vertex 1 ''b'') 3) \<and>
          get_edge g' (Vertex 1 ''b'') (Vertex 0 ''a'')
            = Some (Edge 2 (Vertex 0 ''a'') (Vertex 1 ''b'') 3)) \<and>
   (\<exists>g'. add_edge two_vertices (Vertex 0 ''a'') (Vertex 1 ''b'') 3 PyTrue
            = (Some (Edge 2 (Vertex 0 ''a'') (Vertex 1 ''b'') 3), g') \<and>
          get_edge g' (Vertex 0 ''a'') (Vertex 1 ''b'')
            = Some (Edge 2 (Vertex 0 ''a'') (Vertex 1 ''b'') 3) \<and>
          get_edge g' (Vertex 1 ''b'') (Vertex 0 ''a'') = None) \<and>
   (\<exists>g'. add_edge two_vertices (Vertex 0 ''a'') (Vertex 1 ''b'') 3 PyOther
            = (Some (Edge 2 (Vertex 0 ''a'') (Vertex 1 ''b'') 3), g') \<and>
          get_edge g' (Vertex 0 ''a'') (Vertex 1 ''b'') = None \<and>
          get_edge g' (Vertex 1 ''b'') (Vertex 0 ''a'') = None)"
proof -
  have vs: "vertices two_vertices = [Vertex 0 ''a'', Vertex 1 ''b'']"
    and n: "next_id two_vertices = 2"
    and e: "get_edge two_vertices (Vertex (Suc 0) ''b'') (Vertex 0 ''a'') = None"
    and e': "get_edge two_vertices (Vertex 0 ''a'') (Vertex (Suc 0) ''b'') = None"
    by (simp_all add: two_vertices_value vertices_def get_edge_def)
  from add_edge_contract[of "Vertex 0 ''a''" two_vertices "Vertex 5 ''z''" 3 PyFalse]
  have 1: "add_edge two_vertices (Vertex 0 ''a'') (Vertex 5 ''z'') 3 PyFalse = (None, two_vertices)"
    by (simp add: vs)
  from add_edge_contract[of "Vertex 0 ''a''" two_vertices "Vertex 1 ''b''" 3 PyFalse]
  have 2: "\<exists>g'. add_edge two_vertices (Vertex 0 ''a'') (Vertex 1 ''b'') 3 PyFalse
            = (Some (Edge 2 (Vertex 0 ''a'') (Vertex 1 ''b'') 3), g') \<and>
          get_edge g' (Vertex 0 ''a'') (Vertex 1 ''b'')
            = Some (Edge 2 (Vertex 0 ''a'') (Vertex 1 ''b'') 3) \<and>
          get_edge g' (Vertex 1 ''b'') (Vertex 0 ''a'')
            = Some (Edge 2 (Vertex 0 ''a'') (Vertex 1 ''b'') 3)"
    by (auto simp: vs n)
  from add_edge_contract[of "Vertex 0 ''a''" two_vertices "Vertex 1 ''b''" 3 PyTrue]
  have 3: "\<exists>g'. add_edge two_vertices (Vertex 0 ''a'') (Vertex 1 ''b'') 3 PyTrue
            = (Some (Edge 2 (Vertex 0 ''a'') (Vertex 1 ''b'') 3), g') \<and>
          get_edge g' (Vertex 0 ''a'') (Vertex 1 ''b'')
            = Some (Edge 2 (Vertex 0 ''a'') (Vertex 1 ''b'') 3) \<and>
          get_edge g' (Vertex 1 ''b'') (Vertex 0 ''a'') = None"
    by (auto simp: vs n e)
  from add_edge_contract[of "Vertex 0 ''a''" two_vertices "Vertex 1 ''b''" 3 PyOther]
  have 4: "\<exists>g'. add_edge two_vertices (Vertex 0 ''a'') (Vertex 1 ''b'') 3 PyOther
            = (Some (Edge 2 (Vertex 0 ''a'') (Vertex 1 ''b'') 3), g') \<and>
          get_edge g' (Vertex 0 ''a'') (Vertex 1 ''b'') = None \<and>
          get_edge g' (Vertex 1 ''b'') (Vertex 0 ''a'') = None"
    by (auto simp: vs n e e')
  from 1 2 3 4 show ?thesis by blast
qed

text \<open>
  Claim C7 (with both endpoints in the graph, \<open>add_edge\<close> inserts the new edge into the
  adjacency map of \<open>v\<close>, and into that of \<open>w\<close> unless \<open>oneway\<close> is true or \<open>v == w\<close>). The
  docstring of \<open>add_edge\<close> says "Add and return an edge between two vertices v and w".
  The code tests the flag with \<open>oneway is True\<close>, then \<open>elif oneway is False\<close>, and has no
  \<open>else\<close>. In \<open>add_edge(a, b, 3, 1)\<close> on two vertices \<open>a\<close>, \<open>b\<close> both tests are false: the
  edge is created and returned, and neither adjacency map is written.
\<close>

theorem add_edge_other_flag_stores_nothing:
  "add_edge two_vertices (Vertex 0 ''a'') (Vertex 1 ''b'') 3 PyOther
     = (Some (Edge 2 (Vertex 0 ''a'') (Vertex 1 ''b'') 3),
        \<lparr>struct = [(Vertex 0 ''a'', []), (Vertex 1 ''b'', [])], next_id = 3\<rparr>) \<and>
   get_edge (snd (add_edge two_vertices (Vertex 0 ''a'') (Vertex 1 ''b'') 3 PyOther))
      (Vertex 0 ''a'') (Vertex 1 ''b'') = None \<and>
   edges (snd (add_edge two_vertices (Vertex 0 ''a'') (Vertex 1 ''b'') 3 PyOther)) = []"
  by (simp add: two_vertices_value add_edge_def Let_def get_edge_def edges_def)

text \<open>
  Claim C6 (\<open>num_edges()\<close> is \<open>k + m\<close> for \<open>k\<close> two-way and \<open>m\<close> one-way edges).
  \<open>num_edges\<close> halves the sum of the sizes of the adjacency maps, as its comment says
  "since each edge appears in the vertex list for both of its vertices". A one-way edge
  is in one map only. With two vertices and one one-way edge between them (\<open>k = 0\<close>,
  \<open>m = 1\<close>), \<open>edges()\<close> lists the edge and \<open>num_edges()\<close> is 0.
\<close>

theorem num_edges_misses_one_way_edge:
  "add_edge (run_calls (Graph_init :: (string, int) graph) [AddVertex ''a'', AddVertex ''b''])
      (Vertex 0 ''a'') (Vertex 1 ''b'') 7 PyTrue
     = (Some (Edge 2 (Vertex 0 ''a'') (Vertex 1 ''b'') 7), one_way_graph) \<and>
   edges one_way_graph = [Edge 2 (Vertex 0 ''a'') (Vertex 1 ''b'') 7] \<and>
   num_edges one_way_graph = 0"
  by (simp add: one_way_graph_def graph_defs edges_def num_edges_def)

section \<open>Label lookup\<close>

lemma findvertex_add_edge: "findvertex (snd (add_edge r v w x oneway)) = findvertex r"
  by (simp add: add_edge_def Let_def)

lemma vertices_add_edge: "vertices (snd (add_edge g v w x oneway)) = vertices g"
  by (simp add: add_edge_def Let_def vertices_def keys_set_edge)

lemma routemap_calls_snoc:
  "routemap_calls (cs @ [c]) = run_routemap_call (routemap_calls cs) c"
  by (simp add: routemap_calls_def)

lemma findvertex_sound:
  "map_of (findvertex (routemap_calls cs)) x = Some v \<Longrightarrow>
   v \<in> set (vertices (routemap_calls cs)) \<and> element v = x"
proof (induction cs arbitrary: x v rule: rev_induct)
  case Nil
  then show ?case by (simp add: routemap_calls_def RouteMap_init_def)
next
  case (snoc c cs)
  let ?r = "routemap_calls cs"
  note step = routemap_calls_snoc
  show ?case
  proof (cases c)
    case (RAddVertex y c1 c2)
    have fv: "map_of (findvertex (routemap_calls (cs @ [c]))) =
        (map_of (findvertex ?r))(y \<mapsto> Vertex (next_id ?r) y)"
      by (simp add: step RAddVertex RouteMap_add_vertex_def Let_def AList.update_conv')
    have vs: "set (vertices (routemap_calls (cs @ [c]))) =
        insert (Vertex (next_id ?r) y) (set (vertices ?r))"
      by (auto simp: step RAddVertex RouteMap_add_vertex_def Let_def vertices_def
          AList.update_keys)
    from snoc.prems snoc.IH show ?thesis
      by (auto simp: fv vs split: if_splits)
  next
    case (RAddEdge a b y oneway)
    from snoc.prems snoc.IH show ?thesis
      by (simp add: step RAddEdge findvertex_add_edge vertices_add_edge)
  qed
qed

text \<open>
  Claim C10. For an element that no vertex carries, \<open>Graph.get_vertex_by_label\<close> returns
  \<open>None\<close> (the scan finds nothing), while \<open>RouteMap.get_vertex_by_label\<close> raises
  \<open>KeyError\<close>: \<open>_findvertex\<close> has a key only for the elements that \<open>add_vertex\<close> stored,
  each the element of a vertex of the map. The route map is any that \<open>add_vertex\<close> and
  \<open>add_edge\<close> calls build.
\<close>

theorem label_lookup_miss:
  "((\<forall>v \<in> set (vertices g). element v \<noteq> x) \<longrightarrow> get_vertex_by_label g x = None) \<and>
   ((\<forall>v \<in> set (vertices (routemap_calls cs)). element v \<noteq> x) \<longrightarrow>
      RouteMap_get_vertex_by_label (routemap_calls cs) x = Inl KeyError)"
proof (intro conjI impI)
  assume "\<forall>v \<in> set (vertices g). element v \<noteq> x"
  then show "get_vertex_by_label g x = None"
    by (auto simp: get_vertex_by_label_def vertices_def find_None_iff)
next
  assume miss: "\<forall>v \<in> set (vertices (routemap_calls cs)). element v \<noteq> x"
  have "map_of (findvertex (routemap_calls cs)) x = None"
  proof (cases "map_of (findvertex (routemap_calls cs)) x")
    case None
    then show ?thesis .
  next
    case (Some v)
    from findvertex_sound[OF Some] miss show ?thesis by blast
  qed
  then show "RouteMap_get_vertex_by_label (routemap_calls cs) x = Inl KeyError"
    by (simp add: RouteMap_get_vertex_by_label_def)
qed

lemma small_map_value:
  "small_map =
     \<lparr>struct =
        [(Vertex 0 ''A'', [(Vertex 1 ''B'', Edge 2 (Vertex 0 ''A'') (Vertex 1 ''B'') 5)]),
         (Vertex 1 ''B'', [(Vertex 0 ''A'', Edge 2 (Vertex 0 ''A'') (Vertex 1 ''B'') 5)])],
      next_id = 3,
      vertexcoords = [(Vertex 0 ''A'', 1, 2), (Vertex 1 ''B'', 3, 4)],
      findvertex = [(''A'', Vertex 0 ''A''), (''B'', Vertex 1 ''B'')]\<rparr>"
  by (simp add: small_map_def routemap_calls_def RouteMap_init_def RouteMap_add_vertex_def
      add_edge_def set_edge_def Let_def)

theorem label_lookup_miss_witness:
  "get_vertex_by_label small_map ''Z'' = None \<and>
   RouteMap_get_vertex_by_label small_map ''Z'' = Inl KeyError \<and>
   get_vertex_by_label small_map ''B'' = Some (Vertex 1 ''B'') \<and>
   RouteMap_get_vertex_by_label small_map ''B'' = Inr (Vertex 1 ''B'')"
proof -
  have vs: "vertices small_map = [Vertex 0 ''A'', Vertex 1 ''B'']"
    by (simp add: small_map_value vertices_def)
  have hit: "get_vertex_by_label small_map ''B'' = Some (Vertex 1 ''B'')"
    "RouteMap_get_vertex_by_label small_map ''B'' = Inr (Vertex 1 ''B'')"
    by (simp_all add: small_map_value get_vertex_by_label_def RouteMap_get_vertex_by_label_def)
  from label_lookup_miss[of small_map "''Z''"
      "[RAddVertex ''A'' (1::int) 2, RAddVertex ''B'' 3 4,
        RAddEdge (Vertex 0 ''A'') (Vertex 1 ''B'') (5::int) PyFalse]"]
  have "get_vertex_by_label small_map ''Z'' = None \<and>
   RouteMap_get_vertex_by_label small_map ''Z'' = Inl KeyError"
    unfolding small_map_def[symmetric] by (simp add: vs)
  with hit show ?thesis by simp
qed

section \<open>Edge identity in both directions\<close>



lemma run_calls_snoc: "run_calls g (cs @ [c]) = run_call (run_calls g cs) c"
  by (simp add: run_calls_def)













section \<open>Dijkstra on concrete graphs\<close>

lemmas dijkstra_defs = dijkstra_def dijkstra_with_def visit_def dijkstra_loop.simps
  bubble_down.simps get_edges_def get_vertex_by_label_def graph_lookup_def opposite_def
  result_of_def

lemma detour_graph_value:
  "detour_graph =
     \<lparr>struct =
        [(Vertex 0 ''S'',
          [(Vertex 2 ''U'', Edge 3 (Vertex 0 ''S'') (Vertex 2 ''U'') 10),
           (Vertex 1 ''T'', Edge 4 (Vertex 0 ''S'') (Vertex 1 ''T'') 1)]),
         (Vertex 1 ''T'',
          [(Vertex 0 ''S'', Edge 4 (Vertex 0 ''S'') (Vertex 1 ''T'') 1),
           (Vertex 2 ''U'', Edge 5 (Vertex 1 ''T'') (Vertex 2 ''U'') 1)]),
         (Vertex 2 ''U'',
          [(Vertex 0 ''S'', Edge 3 (Vertex 0 ''S'') (Vertex 2 ''U'') 10),
           (Vertex 1 ''T'', Edge 5 (Vertex 1 ''T'') (Vertex 2 ''U'') 1)])],
      next_id = 6\<rparr>"
  by (simp add: detour_graph_def graph_defs)

text \<open>
  Claim C1 (every reachable label is finalized with its shortest distance). The graph has
  the edges S-U of cost 10, S-T of cost 1 and T-U of cost 1, added in this order, so the
  shortest path from S to U costs 2. Visiting S adds U with key 10, then T with key 1;
  \<open>bubble_up\<close> lifts T to the root and its loop, which goes on at index 0, puts it back
  in the last slot. \<open>remove_min\<close> then takes U: the run ends normally with U finalized at
  distance 10.
\<close>

theorem dijkstra_misses_shorter_path:
  "get_edge detour_graph (Vertex 0 ''S'') (Vertex 1 ''T'')
     = Some (Edge 4 (Vertex 0 ''S'') (Vertex 1 ''T'') 1) \<and>
   get_edge detour_graph (Vertex 1 ''T'') (Vertex 2 ''U'')
     = Some (Edge 5 (Vertex 1 ''T'') (Vertex 2 ''U'') 1) \<and>
   result_of (dijkstra detour_graph ''S'')
     = Some (Inr [(''S'', 0, None), (''U'', 10, Some ''S''), (''T'', 1, Some ''S'')])"
  unfolding detour_graph_value
  by (simp add: dijkstra_defs apq_defs get_edge_def)

lemma triangle_listed_order:
  "triangle [AddEdge (Vertex 0 ''A'') (Vertex 1 ''B'') 1 PyFalse,
             AddEdge (Vertex 1 ''B'') (Vertex 2 ''C'') 2 PyFalse,
             AddEdge (Vertex 0 ''A'') (Vertex 2 ''C'') 4 PyFalse] =
     \<lparr>struct =
        [(Vertex 0 ''A'',
          [(Vertex 1 ''B'', Edge 3 (Vertex 0 ''A'') (Vertex 1 ''B'') 1),
           (Vertex 2 ''C'', Edge 5 (Vertex 0 ''A'') (Vertex 2 ''C'') 4)]),
         (Vertex 1 ''B'',
          [(Vertex 0 ''A'', Edge 3 (Vertex 0 ''A'') (Vertex 1 ''B'') 1),
           (Vertex 2 ''C'', Edge 4 (Vertex 1 ''B'') (Vertex 2 ''C'') 2)]),
         (Vertex 2 ''C'',
          [(Vertex 1 ''B'', Edge 4 (Vertex 1 ''B'') (Vertex 2 ''C'') 2),
           (Vertex 0 ''A'', Edge 5 (Vertex 0 ''A'') (Vertex 2 ''C'') 4)])],
      next_id = 6\<rparr>"
  by (simp add: triangle_def graph_defs)

lemma triangle_long_edge_first:
  "triangle [AddEdge (Vertex 0 ''A'') (Vertex 2 ''C'') 4 PyFalse,
             AddEdge (Vertex 0 ''A'') (Vertex 1 ''B'') 1 PyFalse,
             AddEdge (Vertex 1 ''B'') (Vertex 2 ''C'') 2 PyFalse] =
     \<lparr>struct =
        [(Vertex 0 ''A'',
          [(Vertex 2 ''C'', Edge 3 (Vertex 0 ''A'') (Vertex 2 ''C'') 4),
           (Vertex 1 ''B'', Edge 4 (Vertex 0 ''A'') (Vertex 1 ''B'') 1)]),
         (Vertex 1 ''B'',
          [(Vertex 0 ''A'', Edge 4 (Vertex 0 ''A'') (Vertex 1 ''B'') 1),
           (Vertex 2 ''C'', Edge 5 (Vertex 1 ''B'') (Vertex 2 ''C'') 2)]),
         (Vertex 2 ''C'',
          [(Vertex 0 ''A'', Edge 3 (Vertex 0 ''A'') (Vertex 2 ''C'') 4),
           (Vertex 1 ''B'', Edge 5 (Vertex 1 ''B'') (Vertex 2 ''C'') 2)])],
      next_id = 6\<rparr>"
  by (simp add: triangle_def graph_defs)

text \<open>With the three edges added in the order A-B, B-C, A-C the run gives the table
  of claim C4.\<close>

lemma dijkstra_triangle_listed_order:
  "result_of (dijkstra
     (triangle [AddEdge (Vertex 0 ''A'') (Vertex 1 ''B'') 1 PyFalse,
                AddEdge (Vertex 1 ''B'') (Vertex 2 ''C'') 2 PyFalse,
                AddEdge (Vertex 0 ''A'') (Vertex 2 ''C'') 4 PyFalse]) ''A'')
     = Some (Inr [(''A'', 0, None), (''B'', 1, Some ''A''), (''C'', 3, Some ''B'')])"
  unfolding triangle_listed_order
  by (simp add: dijkstra_defs apq_defs)

text \<open>
  Claim C4 (on the triangle A-B of cost 1, B-C of cost 2, A-C of cost 4, \<open>dijkstra\<close> from
  A gives A: 0, B: 1, C: 3 with predecessor B). The same graph with the edge A-C added
  first: the adjacency map of A then lists C before B, the queue receives C with key 4 and
  then B with key 1, and the loop of \<open>bubble_up\<close> moves B back behind C. C is finalized at
  distance 4 with predecessor A.
\<close>

theorem dijkstra_triangle_long_edge_first:
  "result_of (dijkstra
     (triangle [AddEdge (Vertex 0 ''A'') (Vertex 2 ''C'') 4 PyFalse,
                AddEdge (Vertex 0 ''A'') (Vertex 1 ''B'') 1 PyFalse,
                AddEdge (Vertex 1 ''B'') (Vertex 2 ''C'') 2 PyFalse]) ''A'')
     = Some (Inr [(''A'', 0, None), (''C'', 4, Some ''A''), (''B'', 1, Some ''A'')])"
  unfolding triangle_long_edge_first
  by (simp add: dijkstra_defs apq_defs)

section \<open>Labels out of reach and \<open>sp\<close>\<close>









































end
